theory Spec2Isabelle
  imports Main
begin

section \<open>Values of the host language\<close>

text \<open>
  A \<open>Date\<close> is its epoch milliseconds, an integer, \<open>None\<close> being the Invalid
  Date; the number that the unary plus of \<open>+startOfDay(...)\<close> makes of it is that
  integer, or \<open>NaN\<close> (\<open>None\<close>), so that the unary plus is the identity on the
  representation.
\<close>

type_synonym js_number = "int option"
type_synonym js_date = "int option"

text \<open>
  The truthiness test \<open>if (s)\<close> on an optional string, with the value bound in
  the branch taken: undefined and the empty string are falsy.
\<close>

definition ifTruthy :: "string option \<Rightarrow> (string \<Rightarrow> 'a) \<Rightarrow> 'a \<Rightarrow> 'a" where
  "ifTruthy s f g = (case s of None \<Rightarrow> g | Some v \<Rightarrow> if v \<noteq> [] then f v else g)"

text \<open>A destructuring default, \<open>searchParam = ""\<close>.\<close>

definition orDefault :: "'a \<Rightarrow> 'a option \<Rightarrow> 'a" where
  "orDefault d x = (case x of None \<Rightarrow> d | Some v \<Rightarrow> v)"

definition isSpace :: "char \<Rightarrow> bool" where
  "isSpace c = (c \<in> set [CHR 0x09, CHR 0x0A, CHR 0x0B, CHR 0x0C, CHR 0x0D, CHR '' ''])"

text \<open>\<open>String.prototype.trim\<close>, on the ASCII white space.\<close>

definition trim :: "string \<Rightarrow> string" where
  "trim s = rev (dropWhile isSpace (rev (dropWhile isSpace s)))"

definition lowerChar :: "char \<Rightarrow> char" where
  "lowerChar c =
     (case map_of (zip ''ABCDEFGHIJKLMNOPQRSTUVWXYZ'' ''abcdefghijklmnopqrstuvwxyz'') c of
        None \<Rightarrow> c
      | Some l \<Rightarrow> l)"

text \<open>\<open>toLocaleLowerCase\<close> and SQL's \<open>LOWER\<close>, on the ASCII letters.\<close>

definition toLocaleLowerCase :: "string \<Rightarrow> string" where
  "toLocaleLowerCase s = map lowerChar s"

definition LOWER :: "string \<Rightarrow> string" where
  "LOWER s = map lowerChar s"

definition digitValue :: "char \<Rightarrow> nat option" where
  "digitValue c = map_of (zip ''0123456789'' [0, 1, 2, 3, 4, 5, 6, 7, 8, 9]) c"

fun digits :: "string \<Rightarrow> nat \<Rightarrow> nat option" where
  "digits [] acc = Some acc"
| "digits (c # cs) acc =
     (case digitValue c of None \<Rightarrow> None | Some d \<Rightarrow> digits cs (10 * acc + d))"

text \<open>
  The page number is a string, and \<open>+pageNumber\<close> makes a floating-point number
  of it. The model follows the decimal integer literals: white space around the
  text is trimmed, the empty text is 0, and digits with an optional sign are their
  value. \<open>None\<close> says that the text is not such a literal, not that the number is
  \<open>NaN\<close>: a text with a fraction, an exponent or a radix prefix is a number in
  JavaScript, which the model does not compute.
\<close>

definition decimalInteger :: "string \<Rightarrow> int option" where
  "decimalInteger s =
     (case trim s of
        [] \<Rightarrow> Some 0
      | c # cs \<Rightarrow>
          if c = CHR ''-'' then (if cs = [] then None else map_option (\<lambda>n. - int n) (digits cs 0))
          else if c = CHR ''+'' then (if cs = [] then None else map_option int (digits cs 0))
          else map_option int (digits (c # cs) 0))"

text \<open>
  The start of the page asked for: an integer that the model has computed as the
  code does, or the page number text of which the model does not follow the
  arithmetic.
\<close>

datatype page_offset = Exactly int | Unfollowed string

section \<open>Data model\<close>

text \<open>The two error kinds of the specification, and the failure of the ticket
  query itself.\<close>

datatype error = NotFound | ValidationError | StoreError

record queue =
  queue_id :: int

record user =
  queues :: "queue list option"
  profile :: string

record request =
  searchParam :: "string option"
  pageNumber :: "string option"
  status :: "string option"
  date :: "string option"
  showAll :: "string option"
  userId :: string
  withUnreadMessages :: "string option"
  queueIds :: "int list option"

record contact =
  contact_name :: string
  contact_number :: string

text \<open>
  A stored ticket with its contact and the bodies of its messages. The owner
  \<open>t_userId\<close> has the form of the request's \<open>userId\<close>, with which the
  query compares it.
\<close>

record ticket =
  t_id :: nat
  t_queueId :: "int option"
  t_userId :: "string option"
  t_status :: string
  t_createdAt :: int
  t_updatedAt :: int
  t_unreadMessages :: int
  t_contact :: contact
  t_messages :: "string list"

record response =
  tickets :: "ticket list"
  count :: nat
  hasMore :: bool

subsection \<open>The query object\<close>

text \<open>
  \<open>whereCondition\<close> is an object: a map from its keys to their values. The
  spread \<open>{...whereCondition, k: v}\<close> is the map update, which replaces the value of
  a key that is already there.
\<close>

datatype where_key = queueId_key | Op_or | status_key | createdAt_key | unreadMessages_key

text \<open>
  The values the service writes. Under \<open>queueId\<close>: \<open>Op_in ids\<close> for
  \<open>{[Op.in]: ids}\<close> and \<open>Op_or_null ids\<close> for \<open>{[Op.or]: [ids, null]}\<close>. Under
  \<open>Op.or\<close>: \<open>Or_group\<close>, a list of conditions, which are \<open>{userId}\<close>,
  \<open>{status: "pending"}\<close> and the three \<open>LIKE\<close> conditions of the search, each with
  its pattern. Under \<open>status\<close>: \<open>Equals\<close>. Under \<open>createdAt\<close>: \<open>Op_between\<close>
  with its two bounds. Under \<open>unreadMessages\<close>: \<open>Op_gt n\<close> for \<open>{[Op.gt]: n}\<close>.
\<close>

datatype condition =
    UserIdIs string
  | StatusIs string
  | ContactNameLike string
  | ContactNumberLike string
  | MessageBodyLike string

datatype where_value =
    Op_in "int list"
  | Op_or_null "int list"
  | Or_group "condition list"
  | Equals string
  | Op_between js_number js_number
  | Op_gt int

type_synonym where_object = "where_key \<rightharpoonup> where_value"

datatype model_name = Contact | Queue | Whatsapp | Message

record includeable =
  model :: model_name
  as :: string
  attributes :: "string list"
  where_body_like :: "string option"
  required :: "bool option"
  duplicating :: "bool option"

record find_options =
  where_opt :: where_object
  include_opt :: "includeable list"
  distinct_opt :: bool
  limit_opt :: int
  offset_opt :: page_offset
  order_opt :: "(string \<times> string) list"

text \<open>
  The collaborators the service imports, none of them among the sources: the user
  lookup, which fails when the user is absent; the three functions of the date
  library, which return a date (the Invalid Date for a text that is none) and
  depend on the server's time zone; and the ticket model's \<open>findAndCountAll\<close>.
  The last field is the language's own comparison
  \<open>count > limit * (+pageNumber - 1) + tickets.length\<close> for a page number text
  whose arithmetic the model does not follow, from the text, the count and the
  number of tickets: floating-point arithmetic, taken as it is.
\<close>

record env =
  ShowUserService :: "string \<Rightarrow> error + user"
  parseISO :: "string \<Rightarrow> js_date"
  startOfDay :: "js_date \<Rightarrow> js_date"
  endOfDay :: "js_date \<Rightarrow> js_date"
  findAndCountAll :: "find_options \<Rightarrow> error + (nat \<times> ticket list)"
  hasMoreUnfollowed :: "string \<Rightarrow> nat \<Rightarrow> nat \<Rightarrow> bool"

section \<open>ListTicketsService, backend/src/services/TicketServices\<close>

definition userQueueIds :: "user \<Rightarrow> int list" where
  "userQueueIds u = map queue_id (orDefault [] (queues u))"

definition isAdmin :: "user \<Rightarrow> bool" where
  "isAdmin u = (profile u = ''admin'' \<or> profile u = ''superadmin'')"

definition effectiveQueueIds :: "user \<Rightarrow> request \<Rightarrow> int list" where
  "effectiveQueueIds u req =
     (if isAdmin u \<and> length (orDefault [] (queueIds req)) > 0
      then orDefault [] (queueIds req) else userQueueIds u)"

definition ownedOrPending :: "request \<Rightarrow> where_value" where
  "ownedOrPending req = Or_group [UserIdIs (userId req), StatusIs ''pending'']"

definition searchText :: "request \<Rightarrow> string" where
  "searchText req = orDefault [] (searchParam req)"

definition sanitizedSearchParam :: "request \<Rightarrow> string" where
  "sanitizedSearchParam req = trim (toLocaleLowerCase (searchText req))"

definition likePattern :: "request \<Rightarrow> string" where
  "likePattern req = ''%'' @ sanitizedSearchParam req @ ''%''"

definition searchGroup :: "request \<Rightarrow> where_value" where
  "searchGroup req =
     Or_group [ContactNameLike (likePattern req), ContactNumberLike (likePattern req),
               MessageBodyLike (likePattern req)]"

definition createdAtBetween :: "env \<Rightarrow> string \<Rightarrow> where_value" where
  "createdAtBetween e d = Op_between (startOfDay e (parseISO e d)) (endOfDay e (parseISO e d))"

text \<open>
  The where object as the service assigns it, one \<open>let\<close> for each assignment to
  \<open>whereCondition\<close>: the empty object \<open>w0\<close>; the queue clause \<open>w1\<close> (lines
  87 to 100, with the sentinel \<open>[-1]\<close> for a user without queues); "mine or
  pending" unless \<open>showAll\<close> is "true", \<open>w2\<close> (108 to 116); the status \<open>w3\<close>
  (119 to 124); the day \<open>w4\<close> (127 to 134); the search group \<open>w5\<close>, under the
  key \<open>Op.or\<close> again (158 to 178); the unread filter \<open>w6\<close> (186 to 191).
\<close>

definition whereCondition :: "env \<Rightarrow> user \<Rightarrow> request \<Rightarrow> where_object" where
  "whereCondition e u req =
     (let w0 = Map.empty;
          w1 = (if \<not> isAdmin u
                then w0(queueId_key \<mapsto>
                       Op_in (if effectiveQueueIds u req \<noteq> [] then effectiveQueueIds u req else [- 1]))
                else if length (effectiveQueueIds u req) > 0
                     then w0(queueId_key \<mapsto> Op_in (effectiveQueueIds u req))
                     else w0);
          w2 = (if showAll req = Some ''true'' then w1 else w1(Op_or \<mapsto> ownedOrPending req));
          w3 = ifTruthy (status req) (\<lambda>s. w2(status_key \<mapsto> Equals s)) w2;
          w4 = ifTruthy (date req) (\<lambda>d. w3(createdAt_key \<mapsto> createdAtBetween e d)) w3;
          w5 = (if searchText req \<noteq> [] then w4(Op_or \<mapsto> searchGroup req) else w4);
          w6 = (if withUnreadMessages req = Some ''true''
                then w5(unreadMessages_key \<mapsto> Op_gt 0) else w5)
      in w6)"

definition baseInclude :: "includeable list" where
  "baseInclude =
     [\<lparr>model = Contact, as = ''contact'',
        attributes = [''id'', ''name'', ''number'', ''profilePicUrl''],
        where_body_like = None, required = None, duplicating = None\<rparr>,
      \<lparr>model = Queue, as = ''queue'', attributes = [''id'', ''name'', ''color''],
        where_body_like = None, required = None, duplicating = None\<rparr>,
      \<lparr>model = Whatsapp, as = ''whatsapp'', attributes = [''name''],
        where_body_like = None, required = None, duplicating = None\<rparr>]"

definition messagesInclude :: "request \<Rightarrow> includeable" where
  "messagesInclude req =
     \<lparr>model = Message, as = ''messages'', attributes = [''id'', ''body''],
      where_body_like = Some (likePattern req), required = Some False,
      duplicating = Some False\<rparr>"

definition includeCondition :: "request \<Rightarrow> includeable list" where
  "includeCondition req =
     (if searchText req \<noteq> [] then baseInclude @ [messagesInclude req] else baseInclude)"

definition limit :: int where
  "limit = 40"

text \<open>
  \<open>limit * (+pageNumber - 1)\<close>. Floating-point arithmetic is exact on the integers
  up to \<open>2 ^ 53\<close> in absolute value. For a decimal integer literal \<open>n\<close> the model
  computes the offset when the offset, and with it \<open>n\<close>, \<open>n - 1\<close> and the later
  sum with the length of an array (below \<open>2 ^ 32\<close>), stay within that range;
  otherwise it keeps the text.
\<close>

definition exactOffset :: "int \<Rightarrow> bool" where
  "exactOffset n = (\<bar>limit * (n - 1)\<bar> + 2 ^ 32 \<le> 2 ^ 53)"

definition offset :: "request \<Rightarrow> page_offset" where
  "offset req =
     (case decimalInteger (orDefault ''1'' (pageNumber req)) of
        None \<Rightarrow> Unfollowed (orDefault ''1'' (pageNumber req))
      | Some n \<Rightarrow>
          if exactOffset n then Exactly (limit * (n - 1))
          else Unfollowed (orDefault ''1'' (pageNumber req)))"

definition findOptions :: "env \<Rightarrow> user \<Rightarrow> request \<Rightarrow> find_options" where
  "findOptions e u req =
     \<lparr>where_opt = whereCondition e u req, include_opt = includeCondition req,
      distinct_opt = True, limit_opt = limit, offset_opt = offset req,
      order_opt = [(''updatedAt'', ''DESC'')]\<rparr>"

text \<open>\<open>count > offset + tickets.length\<close>, on integers where the model has the
  offset, and as the language gives it otherwise.\<close>

definition computeHasMore :: "env \<Rightarrow> nat \<Rightarrow> page_offset \<Rightarrow> ticket list \<Rightarrow> bool" where
  "computeHasMore e c off ts =
     (case off of
        Exactly n \<Rightarrow> int c > n + int (length ts)
      | Unfollowed s \<Rightarrow> hasMoreUnfollowed e s c (length ts))"

definition ListTicketsService :: "env \<Rightarrow> request \<Rightarrow> error + response" where
  "ListTicketsService e req =
     (case ShowUserService e (userId req) of
        Inl err \<Rightarrow> Inl err
      | Inr u \<Rightarrow>
          (case findAndCountAll e (findOptions e u req) of
             Inl err \<Rightarrow> Inl err
           | Inr (c, ts) \<Rightarrow>
               Inr \<lparr>tickets = ts, count = c, hasMore = computeHasMore e c (offset req) ts\<rparr>))"

section \<open>ListTicketsService, the variant unnamed/part_000\<close>

definition isAdmin_part000 :: "user \<Rightarrow> bool" where
  "isAdmin_part000 u = (profile u = ''admin'')"

definition queueOrNull :: "user \<Rightarrow> where_object" where
  "queueOrNull u = [queueId_key \<mapsto> Op_or_null (userQueueIds u)]"

text \<open>
  The variant does not take \<open>queueIds\<close> from the request. Its where object: the
  queue clause "one of the user's queues, or none" for a user who is not an admin,
  \<open>w1\<close> (lines 67 to 75); "mine or pending", for an admin as a new object, \<open>w2\<close>
  (79 to 89); under \<open>showAll\<close> a new object with the queue clause alone, \<open>w3\<close>
  (93 to 101); the status \<open>w4\<close> (104 to 109); the search group \<open>w5\<close> (133 to
  152); the day \<open>w6\<close> (157 to 164); the unread filter, after which "mine or
  pending" is written once more for a user who is not an admin and has not set
  \<open>showAll\<close>, \<open>w7\<close> (167 to 180).
\<close>

definition whereCondition_part000 :: "env \<Rightarrow> user \<Rightarrow> request \<Rightarrow> where_object" where
  "whereCondition_part000 e u req =
     (let w1 = (if isAdmin_part000 u then Map.empty else queueOrNull u);
          w2 = (if \<not> isAdmin_part000 u then w1(Op_or \<mapsto> ownedOrPending req)
                else [Op_or \<mapsto> ownedOrPending req]);
          w3 = (if showAll req = Some ''true''
                then (if isAdmin_part000 u then Map.empty else queueOrNull u)
                else w2);
          w4 = ifTruthy (status req) (\<lambda>s. w3(status_key \<mapsto> Equals s)) w3;
          w5 = (if searchText req \<noteq> [] then w4(Op_or \<mapsto> searchGroup req) else w4);
          w6 = ifTruthy (date req) (\<lambda>d. w5(createdAt_key \<mapsto> createdAtBetween e d)) w5;
          w7 = (if withUnreadMessages req = Some ''true''
                then (let w = w6(unreadMessages_key \<mapsto> Op_gt 0)
                      in if \<not> isAdmin_part000 u \<and> showAll req \<noteq> Some ''true''
                         then w(Op_or \<mapsto> ownedOrPending req) else w)
                else w6)
      in w7)"

definition findOptions_part000 :: "env \<Rightarrow> user \<Rightarrow> request \<Rightarrow> find_options" where
  "findOptions_part000 e u req =
     \<lparr>where_opt = whereCondition_part000 e u req, include_opt = includeCondition req,
      distinct_opt = True, limit_opt = limit, offset_opt = offset req,
      order_opt = [(''updatedAt'', ''DESC'')]\<rparr>"

definition ListTicketsService_part000 :: "env \<Rightarrow> request \<Rightarrow> error + response" where
  "ListTicketsService_part000 e req =
     (case ShowUserService e (userId req) of
        Inl err \<Rightarrow> Inl err
      | Inr u \<Rightarrow>
          (case findAndCountAll e (findOptions_part000 e u req) of
             Inl err \<Rightarrow> Inl err
           | Inr (c, ts) \<Rightarrow>
               Inr \<lparr>tickets = ts, count = c, hasMore = computeHasMore e c (offset req) ts\<rparr>))"

section \<open>The ticket store\<close>

text \<open>
  Modelled from the spec: the substring match of the TicketStore, which the query
  asks for as SQL's \<open>LIKE\<close>. \<open>%\<close> stands for any run of characters and \<open>_\<close>
  for one character, also where they come from the search text; the comparison is
  by character, and the escape character is not modelled.
\<close>

fun like :: "string \<Rightarrow> string \<Rightarrow> bool" where
  "like [] [] = True"
| "like [] (c # cs) = False"
| "like (p # ps) [] = (p = CHR ''%'' \<and> like ps [])"
| "like (p # ps) (c # cs) =
     (if p = CHR ''%'' then like ps (c # cs) \<or> like (p # ps) cs
      else (p = CHR ''_'' \<or> p = c) \<and> like ps cs)"

text \<open>A row of the query: a ticket and the body of one joined message, if any.\<close>

type_synonym row = "ticket \<times> string option"

text \<open>
  Modelled from the spec: the TicketStore collaborator (the models and the
  library behind \<open>Ticket.findAndCountAll\<close> are not among the sources). The
  inclusion of the messages is a left join filtered by its pattern on the
  lower-cased body: a ticket with no such message keeps one row without a body,
  unless the inclusion is required.
\<close>

definition joinMessages :: "includeable list \<Rightarrow> ticket \<Rightarrow> row list" where
  "joinMessages inc t =
     (case filter (\<lambda>i. model i = Message) inc of
        [] \<Rightarrow> [(t, None)]
      | i # _ \<Rightarrow>
          (let ms = filter (\<lambda>b. case where_body_like i of None \<Rightarrow> True
                                 | Some p \<Rightarrow> like p (LOWER b)) (t_messages t)
           in if ms = [] then (if required i = Some True then [] else [(t, None)])
              else map (\<lambda>b. (t, Some b)) ms))"

fun eval_condition :: "condition \<Rightarrow> row \<Rightarrow> bool" where
  "eval_condition (UserIdIs uid) (t, m) = (t_userId t = Some uid)"
| "eval_condition (StatusIs s) (t, m) = (t_status t = s)"
| "eval_condition (ContactNameLike p) (t, m) = like p (LOWER (contact_name (t_contact t)))"
| "eval_condition (ContactNumberLike p) (t, m) = like p (contact_number (t_contact t))"
| "eval_condition (MessageBodyLike p) (t, m) =
     (case m of None \<Rightarrow> False | Some b \<Rightarrow> like p (LOWER b))"

text \<open>
  Modelled from the spec: the meaning of one entry of the where object on a row.
  A comparison with the null queue id or with a \<open>NaN\<close> bound selects nothing; the
  pairs of key and value that the service never writes select nothing either.
\<close>

fun eval_clause :: "where_key \<Rightarrow> where_value \<Rightarrow> row \<Rightarrow> bool" where
  "eval_clause queueId_key (Op_in ids) (t, m) =
     (case t_queueId t of None \<Rightarrow> False | Some q \<Rightarrow> q \<in> set ids)"
| "eval_clause queueId_key (Op_or_null ids) (t, m) =
     (case t_queueId t of None \<Rightarrow> True | Some q \<Rightarrow> q \<in> set ids)"
| "eval_clause Op_or (Or_group cs) r = list_ex (\<lambda>c. eval_condition c r) cs"
| "eval_clause status_key (Equals s) (t, m) = (t_status t = s)"
| "eval_clause createdAt_key (Op_between lo hi) (t, m) =
     (case lo of None \<Rightarrow> False
      | Some l \<Rightarrow> (case hi of None \<Rightarrow> False
                   | Some h \<Rightarrow> l \<le> t_createdAt t \<and> t_createdAt t \<le> h))"
| "eval_clause unreadMessages_key (Op_gt n) (t, m) = (n < t_unreadMessages t)"
| "eval_clause _ _ _ = False"

text \<open>The entries of the where object are combined by AND.\<close>

definition eval_where :: "where_object \<Rightarrow> row \<Rightarrow> bool" where
  "eval_where w r =
     list_all (\<lambda>k. case w k of None \<Rightarrow> True | Some v \<Rightarrow> eval_clause k v r)
       [queueId_key, Op_or, status_key, createdAt_key, unreadMessages_key]"

definition matchingRows :: "ticket list \<Rightarrow> find_options \<Rightarrow> row list" where
  "matchingRows db q =
     filter (eval_where (where_opt q)) (concat (map (joinMessages (include_opt q)) db))"

definition orderTickets :: "(string \<times> string) list \<Rightarrow> ticket list \<Rightarrow> ticket list" where
  "orderTickets ord ts =
     (if ord = [(''updatedAt'', ''DESC'')] then sort_key (\<lambda>t. - t_updatedAt t) ts else ts)"

text \<open>
  Modelled from the spec: the paginated, counted read. The page holds tickets, each
  once, in the order asked for (among equal keys, in the order of the store); the
  count is the number of matching tickets when \<open>distinct\<close> is set and the number of
  joined rows otherwise. A page that does not start at a natural number is
  refused by the database. This model of the store does not answer a page whose
  start the model has not computed: it stands with the refused ones.
\<close>

definition ticketStore :: "ticket list \<Rightarrow> find_options \<Rightarrow> error + (nat \<times> ticket list)" where
  "ticketStore db q =
     (let rows = matchingRows db q;
          c = (if distinct_opt q then length (remdups (map (\<lambda>r. t_id (fst r)) rows))
               else length rows);
          found = orderTickets (order_opt q) (remdups (map fst rows))
      in case offset_opt q of
           Unfollowed s \<Rightarrow> Inl StoreError
         | Exactly off \<Rightarrow>
             if off < 0 \<or> limit_opt q < 0 then Inl StoreError
             else Inr (c, take (nat (limit_opt q)) (drop (nat off) found)))"

text \<open>The tickets that match a query, each once, in the order asked for.\<close>

definition matchingTickets :: "ticket list \<Rightarrow> find_options \<Rightarrow> ticket list" where
  "matchingTickets db q = orderTickets (order_opt q) (remdups (map fst (matchingRows db q)))"

section \<open>An example installation\<close>

definition agent7 :: user where
  "agent7 = \<lparr>queues = Some [\<lparr>queue_id = 1\<rparr>], profile = ''user''\<rparr>"

definition agent8 :: user where
  "agent8 = \<lparr>queues = Some [], profile = ''user''\<rparr>"

definition admin9 :: user where
  "admin9 = \<lparr>queues = Some [\<lparr>queue_id = 1\<rparr>], profile = ''admin''\<rparr>"

definition super10 :: user where
  "super10 = \<lparr>queues = Some [\<lparr>queue_id = 1\<rparr>], profile = ''superadmin''\<rparr>"

definition admin11 :: user where
  "admin11 = \<lparr>queues = None, profile = ''admin''\<rparr>"

definition exampleUsers :: "(string \<times> user) list" where
  "exampleUsers =
     [(''7'', agent7), (''8'', agent8), (''9'', admin9), (''10'', super10), (''11'', admin11)]"

text \<open>A ticket created on 2024-05-01 at 10:40 UTC, with as many unread messages
  as it has messages.\<close>

definition exampleTicket ::
  "nat \<Rightarrow> int option \<Rightarrow> string option \<Rightarrow> string \<Rightarrow> int \<Rightarrow> string \<Rightarrow> string list \<Rightarrow> ticket" where
  "exampleTicket i q owner st upd nm msgs =
     \<lparr>t_id = i, t_queueId = q, t_userId = owner, t_status = st,
      t_createdAt = 1714560000000, t_updatedAt = upd, t_unreadMessages = int (length msgs),
      t_contact = \<lparr>contact_name = nm, contact_number = ''5511999''\<rparr>,
      t_messages = msgs\<rparr>"

definition ticket1 :: ticket where
  "ticket1 = exampleTicket 1 (Some 1) (Some ''7'') ''open'' 100 ''Maria Silva'' [''Bom dia'', ''dia 5'']"

definition ticket2 :: ticket where
  "ticket2 = exampleTicket 2 (Some 1) (Some ''8'') ''open'' 300 ''Ana'' [''Ola'']"

definition ticket3 :: ticket where
  "ticket3 = exampleTicket 3 (Some 2) None ''pending'' 200 ''Rui'' []"

definition ticket4 :: ticket where
  "ticket4 = exampleTicket 4 None None ''pending'' 400 ''Eva'' [''sem fila'']"

definition exampleTickets :: "ticket list" where
  "exampleTickets = [ticket1, ticket2, ticket3, ticket4]"

text \<open>A date library for the examples: days in UTC, and the one calendar date the
  examples ask for; every other string is not a date. No example asks for a page
  whose start the model does not compute.\<close>

definition exampleEnv :: env where
  "exampleEnv =
     \<lparr>ShowUserService =
        (\<lambda>uid. case map_of exampleUsers uid of None \<Rightarrow> Inl NotFound | Some u \<Rightarrow> Inr u),
      parseISO = map_of [(''2024-05-01'', 1714521600000)],
      startOfDay = map_option (\<lambda>ms. ms - ms mod 86400000),
      endOfDay = map_option (\<lambda>ms. ms - ms mod 86400000 + 86399999),
      findAndCountAll = ticketStore exampleTickets,
      hasMoreUnfollowed = (\<lambda>s c n. False)\<rparr>"

text \<open>A second store, of 41 open tickets of queue 1 owned by agent 7, ticket \<open>i\<close>
  last updated at time \<open>i\<close>.\<close>

definition bulkTickets :: "ticket list" where
  "bulkTickets =
     map (\<lambda>i. exampleTicket i (Some 1) (Some ''7'') ''open'' (int i) ''Bulk'' [])
       [1, 2, 3, 4, 5, 6, 7, 8, 9, 10, 11, 12, 13, 14, 15, 16, 17,
        18, 19, 20, 21, 22, 23, 24, 25, 26, 27, 28, 29, 30, 31, 32,
        33, 34, 35, 36, 37, 38, 39, 40, 41]"

definition bulkEnv :: env where
  "bulkEnv = exampleEnv\<lparr>findAndCountAll := ticketStore bulkTickets\<rparr>"

definition exampleRequest :: "string \<Rightarrow> request" where
  "exampleRequest uid =
     \<lparr>searchParam = None, pageNumber = None, status = None, date = None, showAll = None,
      userId = uid, withUnreadMessages = None, queueIds = None\<rparr>"

section \<open>The entries of the where object\<close>

lemma whereCondition_queueId:
  "whereCondition e u req queueId_key =
     (if \<not> isAdmin u
      then Some (Op_in (if effectiveQueueIds u req \<noteq> [] then effectiveQueueIds u req else [- 1]))
      else if effectiveQueueIds u req \<noteq> [] then Some (Op_in (effectiveQueueIds u req))
      else None)"
  by (simp add: whereCondition_def Let_def ifTruthy_def split: option.splits)

lemma whereCondition_Op_or:
  "whereCondition e u req Op_or =
     (if searchText req \<noteq> [] then Some (searchGroup req)
      else if showAll req = Some ''true'' then None
      else Some (ownedOrPending req))"
  by (simp add: whereCondition_def Let_def ifTruthy_def split: option.splits)

lemma whereCondition_part000_queueId:
  "whereCondition_part000 e u req queueId_key =
     (if isAdmin_part000 u then None else Some (Op_or_null (userQueueIds u)))"
  by (simp add: whereCondition_part000_def queueOrNull_def Let_def ifTruthy_def
      split: option.splits)

lemma whereCondition_part000_Op_or:
  "whereCondition_part000 e u req Op_or =
     (if withUnreadMessages req = Some ''true'' \<and> \<not> isAdmin_part000 u
         \<and> showAll req \<noteq> Some ''true''
      then Some (ownedOrPending req)
      else if searchText req \<noteq> [] then Some (searchGroup req)
      else if showAll req = Some ''true'' then None
      else Some (ownedOrPending req))"
  by (simp add: whereCondition_part000_def queueOrNull_def Let_def ifTruthy_def
      split: option.splits)

lemma joinMessages_fst: "r \<in> set (joinMessages inc t) \<Longrightarrow> fst r = t"
  by (auto simp: joinMessages_def Let_def split: list.splits if_splits)

lemma matchingRows_sound:
  "r \<in> set (matchingRows db q) \<Longrightarrow> fst r \<in> set db \<and> eval_where (where_opt q) r"
  by (auto simp: matchingRows_def dest: joinMessages_fst)

lemma set_orderTickets: "set (orderTickets ord ts) = set ts"
  by (simp add: orderTickets_def)

lemma ticketStore_rows:
  assumes "ticketStore db q = Inr (c, ts)" and "t \<in> set ts"
  shows "\<exists>m. (t, m) \<in> set (matchingRows db q)"
proof -
  from assms have "t \<in> set (orderTickets (order_opt q) (remdups (map fst (matchingRows db q))))"
    by (auto simp: ticketStore_def Let_def split: page_offset.splits if_splits
        dest!: in_set_takeD in_set_dropD)
  then have "t \<in> fst ` set (matchingRows db q)"
    by (simp add: set_orderTickets)
  then show ?thesis by force
qed

lemma eval_where_entry:
  "eval_where w r \<Longrightarrow> w k = Some v \<Longrightarrow> eval_clause k v r"
  by (cases k) (auto simp: eval_where_def)

lemma ticketStore_sound:
  assumes "ticketStore db q = Inr (c, ts)" and "t \<in> set ts" and "where_opt q k = Some v"
  shows "t \<in> set db \<and> (\<exists>m. eval_clause k v (t, m))"
proof -
  from ticketStore_rows [OF assms(1,2)] obtain m where "(t, m) \<in> set (matchingRows db q)" ..
  from matchingRows_sound [OF this] assms(3) show ?thesis
    by (auto dest: eval_where_entry)
qed

lemmas service_defs =
  ListTicketsService_def ListTicketsService_part000_def findOptions_def
  findOptions_part000_def whereCondition_def whereCondition_part000_def queueOrNull_def
  includeCondition_def baseInclude_def messagesInclude_def computeHasMore_def offset_def
  limit_def isAdmin_def isAdmin_part000_def effectiveQueueIds_def userQueueIds_def
  orDefault_def ifTruthy_def searchText_def sanitizedSearchParam_def likePattern_def
  searchGroup_def ownedOrPending_def createdAtBetween_def decimalInteger_def exactOffset_def trim_def isSpace_def
  digitValue_def toLocaleLowerCase_def lowerChar_def Let_def

lemmas store_defs =
  ticketStore_def matchingRows_def joinMessages_def eval_where_def orderTickets_def LOWER_def

lemmas example_defs =
  exampleEnv_def exampleRequest_def exampleUsers_def exampleTickets_def exampleTicket_def
  agent7_def agent8_def admin9_def super10_def admin11_def
  ticket1_def ticket2_def ticket3_def ticket4_def

section \<open>The queue clause of the variant part_000\<close>

text \<open>
  C4. In the variant part_000 the queue clause of a user who is not an admin,
  whatever \<open>showAll\<close> is, is "one of the user's queues, or no queue": a ticket
  with no queue satisfies it, also when the user has no queue at all.
\<close>

theorem part000_admits_null_queue:
  assumes "\<not> isAdmin_part000 u"
  shows "whereCondition_part000 e u req queueId_key = Some (Op_or_null (userQueueIds u))
     \<and> (t_queueId t = None \<longrightarrow>
          eval_clause queueId_key (Op_or_null (userQueueIds u)) (t, m))"
  using assms by (simp add: whereCondition_part000_queueId)

theorem part000_admits_null_queue_witness:
  "\<not> isAdmin_part000 agent8
   \<and> userQueueIds agent8 = []
   \<and> whereCondition_part000 exampleEnv agent8
         ((exampleRequest ''8'')\<lparr>showAll := Some ''true''\<rparr>) queueId_key
       = Some (Op_or_null [])
   \<and> t_queueId ticket4 = None
   \<and> eval_clause queueId_key (Op_or_null []) (ticket4, None)"
proof -
  have a: "\<not> isAdmin_part000 agent8"
    by (simp add: isAdmin_part000_def agent8_def)
  from part000_admits_null_queue [OF a, of exampleEnv
      "(exampleRequest ''8'')\<lparr>showAll := Some ''true''\<rparr>" ticket4 None] a
  show ?thesis
    by (simp add: userQueueIds_def orDefault_def agent8_def ticket4_def exampleTicket_def)
qed

section \<open>The two variants differ\<close>

lemma superadmin_results_differ:
  "ListTicketsService exampleEnv (exampleRequest ''10'')
     = Inr \<lparr>tickets = [], count = 0, hasMore = False\<rparr>
   \<and> ListTicketsService_part000 exampleEnv (exampleRequest ''10'')
     = Inr \<lparr>tickets = [ticket4], count = 1, hasMore = False\<rparr>"
  by (simp add: service_defs store_defs example_defs)

text \<open>
  C5. A user whose profile is "superadmin" is elevated for the service of
  backend/src and is not for the variant part_000; the two services are
  different functions.
\<close>

theorem superadmin_elevated_in_one_variant_only:
  "isAdmin (u\<lparr>profile := ''superadmin''\<rparr>)
   \<and> \<not> isAdmin_part000 (u\<lparr>profile := ''superadmin''\<rparr>)
   \<and> ListTicketsService \<noteq> ListTicketsService_part000"
proof -
  have "ListTicketsService exampleEnv (exampleRequest ''10'')
      \<noteq> ListTicketsService_part000 exampleEnv (exampleRequest ''10'')"
    using superadmin_results_differ by simp
  then have "ListTicketsService \<noteq> ListTicketsService_part000"
    by metis
  then show ?thesis
    by (simp add: isAdmin_def isAdmin_part000_def)
qed

theorem superadmin_elevated_in_one_variant_only_witness:
  "isAdmin super10 \<and> \<not> isAdmin_part000 super10
   \<and> ListTicketsService \<noteq> ListTicketsService_part000"
  using superadmin_elevated_in_one_variant_only [of super10]
  by (simp add: super10_def)

section \<open>The queue ids of the request\<close>

lemma effectiveQueueIds_ordinary:
  "\<not> isAdmin u \<Longrightarrow> effectiveQueueIds u req = userQueueIds u"
  by (simp add: effectiveQueueIds_def)

lemma queueIds_update_unread:
  "ownedOrPending (req\<lparr>queueIds := a\<rparr>) = ownedOrPending req"
  "searchText (req\<lparr>queueIds := a\<rparr>) = searchText req"
  "likePattern (req\<lparr>queueIds := a\<rparr>) = likePattern req"
  "searchGroup (req\<lparr>queueIds := a\<rparr>) = searchGroup req"
  "messagesInclude (req\<lparr>queueIds := a\<rparr>) = messagesInclude req"
  "includeCondition (req\<lparr>queueIds := a\<rparr>) = includeCondition req"
  "offset (req\<lparr>queueIds := a\<rparr>) = offset req"
  by (simp_all add: ownedOrPending_def searchText_def likePattern_def sanitizedSearchParam_def
      searchGroup_def messagesInclude_def includeCondition_def offset_def
      split: option.splits)

lemma whereCondition_queueIds_irrelevant:
  "\<not> isAdmin u \<Longrightarrow> whereCondition e u (req\<lparr>queueIds := a\<rparr>) = whereCondition e u req"
  by (simp add: whereCondition_def Let_def effectiveQueueIds_ordinary queueIds_update_unread)

lemma findOptions_queueIds_irrelevant:
  "\<not> isAdmin u \<Longrightarrow> findOptions e u (req\<lparr>queueIds := a\<rparr>) = findOptions e u req"
  by (simp add: findOptions_def whereCondition_queueIds_irrelevant queueIds_update_unread)

lemma findOptions_part000_ignores_queueIds:
  "findOptions_part000 e u (req\<lparr>queueIds := a\<rparr>) = findOptions_part000 e u req"
  by (simp add: findOptions_part000_def whereCondition_part000_def Let_def
      queueIds_update_unread)

text \<open>
  C6. For a user who is not elevated the answer does not depend on the queue ids
  the caller sends: two requests that differ in \<open>queueIds\<close> only build the same
  query and return the same tickets, count and \<open>hasMore\<close>; the variant part_000
  never reads them.
\<close>

theorem queueIds_ignored_for_ordinary_user:
  assumes "ShowUserService e (userId req) = Inr u" and "\<not> isAdmin u"
  shows "findOptions e u (req\<lparr>queueIds := a\<rparr>) = findOptions e u (req\<lparr>queueIds := b\<rparr>)
     \<and> ListTicketsService e (req\<lparr>queueIds := a\<rparr>) = ListTicketsService e (req\<lparr>queueIds := b\<rparr>)
     \<and> findOptions_part000 e u (req\<lparr>queueIds := a\<rparr>)
         = findOptions_part000 e u (req\<lparr>queueIds := b\<rparr>)
     \<and> ListTicketsService_part000 e (req\<lparr>queueIds := a\<rparr>)
         = ListTicketsService_part000 e (req\<lparr>queueIds := b\<rparr>)"
  using assms
  by (simp add: ListTicketsService_def ListTicketsService_part000_def
      findOptions_queueIds_irrelevant findOptions_part000_ignores_queueIds
      queueIds_update_unread split: sum.splits)

theorem queueIds_ignored_for_ordinary_user_witness:
  "ShowUserService exampleEnv (userId (exampleRequest ''7'')) = Inr agent7
   \<and> \<not> isAdmin agent7
   \<and> findOptions exampleEnv agent7 ((exampleRequest ''7'')\<lparr>queueIds := Some [2]\<rparr>)
       = findOptions exampleEnv agent7 ((exampleRequest ''7'')\<lparr>queueIds := None\<rparr>)
   \<and> ListTicketsService exampleEnv ((exampleRequest ''7'')\<lparr>queueIds := Some [2]\<rparr>)
       = Inr \<lparr>tickets = [ticket1], count = 1, hasMore = False\<rparr>
   \<and> ListTicketsService exampleEnv ((exampleRequest ''7'')\<lparr>queueIds := None\<rparr>)
       = Inr \<lparr>tickets = [ticket1], count = 1, hasMore = False\<rparr>
   \<and> ListTicketsService_part000 exampleEnv ((exampleRequest ''7'')\<lparr>queueIds := Some [2]\<rparr>)
       = ListTicketsService_part000 exampleEnv ((exampleRequest ''7'')\<lparr>queueIds := None\<rparr>)"
proof -
  have a: "ShowUserService exampleEnv (userId (exampleRequest ''7'')) = Inr agent7"
    by (simp add: exampleEnv_def exampleRequest_def exampleUsers_def)
  have b: "\<not> isAdmin agent7"
    by (simp add: isAdmin_def agent7_def)
  have c: "ListTicketsService exampleEnv ((exampleRequest ''7'')\<lparr>queueIds := None\<rparr>)
       = Inr \<lparr>tickets = [ticket1], count = 1, hasMore = False\<rparr>"
    by (simp add: service_defs store_defs example_defs)
  from queueIds_ignored_for_ordinary_user [OF a b, of "Some [2]" None] a b c
  show ?thesis by simp
qed

section \<open>The queue scope of an ordinary user\<close>

lemma service_result:
  assumes "ShowUserService e (userId req) = Inr u" and "ListTicketsService e req = Inr r"
  shows "findAndCountAll e (findOptions e u req) = Inr (count r, tickets r)"
  using assms by (auto simp: ListTicketsService_def split: sum.splits)

lemma service_part000_result:
  assumes "ShowUserService e (userId req) = Inr u" and "ListTicketsService_part000 e req = Inr r"
  shows "findAndCountAll e (findOptions_part000 e u req) = Inr (count r, tickets r)"
  using assms by (auto simp: ListTicketsService_part000_def split: sum.splits)

lemma where_opt_findOptions [simp]:
  "where_opt (findOptions e u req) = whereCondition e u req"
  "where_opt (findOptions_part000 e u req) = whereCondition_part000 e u req"
  by (simp_all add: findOptions_def findOptions_part000_def)

lemma returned_ticket_in_queues:
  assumes "ticketStore db q = Inr (c, ts)" and "t \<in> set ts"
    and "where_opt q queueId_key = Some (Op_in ids)"
  shows "t \<in> set db \<and> (\<exists>x. t_queueId t = Some x \<and> x \<in> set ids)"
  using ticketStore_sound [OF assms] by (auto split: option.splits)

lemma returned_ticket_in_queues_or_none:
  assumes "ticketStore db q = Inr (c, ts)" and "t \<in> set ts"
    and "where_opt q queueId_key = Some (Op_or_null ids)"
  shows "t_queueId t = None \<or> (\<exists>x. t_queueId t = Some x \<and> x \<in> set ids)"
  using ticketStore_sound [OF assms] by (auto split: option.splits)

lemma backend_queue_scope:
  assumes "findAndCountAll e = ticketStore db"
    and "ShowUserService e (userId req) = Inr u"
    and "\<not> isAdmin u" and "Some (- 1) \<notin> set (map t_queueId db)"
    and "ListTicketsService e req = Inr r"
    and "t \<in> set (tickets r)"
  shows "\<exists>x. t_queueId t = Some x \<and> x \<in> set (userQueueIds u)"
proof -
  let ?ids = "if userQueueIds u \<noteq> [] then userQueueIds u else [- 1]"
  from service_result [OF assms(2,5)] assms(1)
  have store: "ticketStore db (findOptions e u req) = Inr (count r, tickets r)"
    by simp
  from assms(3) have entry: "where_opt (findOptions e u req) queueId_key = Some (Op_in ?ids)"
    by (simp add: whereCondition_queueId effectiveQueueIds_ordinary)
  from returned_ticket_in_queues [OF store assms(6) entry]
  obtain x where x: "t \<in> set db" "t_queueId t = Some x" "x \<in> set ?ids" by blast
  with assms(4) have "x \<noteq> - 1" by force
  with x show ?thesis
    by (auto split: if_splits)
qed

lemma part000_queue_scope:
  assumes "findAndCountAll e = ticketStore db"
    and "ShowUserService e (userId req) = Inr u"
    and "\<not> isAdmin_part000 u"
    and "ListTicketsService_part000 e req = Inr r"
    and "t \<in> set (tickets r)"
  shows "t_queueId t = None \<or> (\<exists>x. t_queueId t = Some x \<and> x \<in> set (userQueueIds u))"
proof -
  from service_part000_result [OF assms(2,4)] assms(1)
  have store: "ticketStore db (findOptions_part000 e u req) = Inr (count r, tickets r)"
    by simp
  from assms(3) have entry: "where_opt (findOptions_part000 e u req) queueId_key
      = Some (Op_or_null (userQueueIds u))"
    by (simp add: whereCondition_part000_queueId)
  from returned_ticket_in_queues_or_none [OF store assms(5) entry] show ?thesis .
qed

text \<open>
  C1 (as amended). For a user who is not elevated, the service of backend/src
  returns only tickets whose queue is one of the user's queues, and no ticket at
  all when the user has no queue, whatever the other parameters are, provided
  that no stored ticket carries the sentinel queue id -1. The variant part_000
  returns only tickets whose queue is one of the user's queues or that have no
  queue.
\<close>

theorem ordinary_user_queue_scope:
  assumes "findAndCountAll e = ticketStore db"
    and "ShowUserService e (userId req) = Inr u"
  shows "(\<not> isAdmin u \<and> Some (- 1) \<notin> set (map t_queueId db)
            \<and> ListTicketsService e req = Inr r \<longrightarrow>
          (\<forall>t\<in>set (tickets r). \<exists>x. t_queueId t = Some x \<and> x \<in> set (userQueueIds u))
          \<and> (userQueueIds u = [] \<longrightarrow> tickets r = []))
     \<and> (\<not> isAdmin_part000 u \<and> ListTicketsService_part000 e req = Inr r' \<longrightarrow>
          (\<forall>t\<in>set (tickets r').
             t_queueId t = None \<or> (\<exists>x. t_queueId t = Some x \<and> x \<in> set (userQueueIds u))))"
proof -
  have scope: "\<forall>t\<in>set (tickets r). \<exists>x. t_queueId t = Some x \<and> x \<in> set (userQueueIds u)"
    if "\<not> isAdmin u" "Some (- 1) \<notin> set (map t_queueId db)" "ListTicketsService e req = Inr r"
    using backend_queue_scope [OF assms that] by blast
  have none: "tickets r = []"
    if "\<not> isAdmin u" "Some (- 1) \<notin> set (map t_queueId db)" "ListTicketsService e req = Inr r"
      "userQueueIds u = []"
  proof -
    from scope [OF that(1-3)] that(4) have "set (tickets r) = {}" by auto
    then show ?thesis by simp
  qed
  have part000: "\<forall>t\<in>set (tickets r').
      t_queueId t = None \<or> (\<exists>x. t_queueId t = Some x \<and> x \<in> set (userQueueIds u))"
    if "\<not> isAdmin_part000 u" "ListTicketsService_part000 e req = Inr r'"
    using part000_queue_scope [OF assms that] by blast
  from scope none part000 show ?thesis by blast
qed

text \<open>
  In the variant part_000 a user with no queue is shown the pending ticket that
  has no queue: the page is not empty, and its ticket is in none of the user's
  queues.
\<close>

theorem part000_returns_ticket_without_queue:
  "ShowUserService exampleEnv (userId (exampleRequest ''8'')) = Inr agent8
   \<and> \<not> isAdmin_part000 agent8
   \<and> userQueueIds agent8 = []
   \<and> ListTicketsService_part000 exampleEnv (exampleRequest ''8'')
       = Inr \<lparr>tickets = [ticket4], count = 1, hasMore = False\<rparr>
   \<and> t_queueId ticket4 = None"
  by (simp add: service_defs store_defs example_defs)

theorem ordinary_user_queue_scope_witness:
  "findAndCountAll exampleEnv = ticketStore exampleTickets
   \<and> ShowUserService exampleEnv (userId (exampleRequest ''7'')) = Inr agent7
   \<and> \<not> isAdmin agent7 \<and> \<not> isAdmin_part000 agent7
   \<and> Some (- 1) \<notin> set (map t_queueId exampleTickets)
   \<and> userQueueIds agent7 = [1]
   \<and> ListTicketsService exampleEnv ((exampleRequest ''7'')\<lparr>showAll := Some ''true''\<rparr>)
       = Inr \<lparr>tickets = [ticket2, ticket1], count = 2, hasMore = False\<rparr>
   \<and> ListTicketsService_part000 exampleEnv ((exampleRequest ''7'')\<lparr>showAll := Some ''true''\<rparr>)
       = Inr \<lparr>tickets = [ticket4, ticket2, ticket1], count = 3, hasMore = False\<rparr>
   \<and> t_queueId ticket2 = Some 1 \<and> t_queueId ticket1 = Some 1 \<and> t_queueId ticket4 = None"
proof -
  have a: "findAndCountAll exampleEnv = ticketStore exampleTickets"
    by (simp add: exampleEnv_def)
  have b: "ShowUserService exampleEnv (userId ((exampleRequest ''7'')\<lparr>showAll := Some ''true''\<rparr>))
      = Inr agent7"
    by (simp add: exampleEnv_def exampleRequest_def exampleUsers_def)
  have c: "ListTicketsService exampleEnv ((exampleRequest ''7'')\<lparr>showAll := Some ''true''\<rparr>)
       = Inr \<lparr>tickets = [ticket2, ticket1], count = 2, hasMore = False\<rparr>"
    by (simp add: service_defs store_defs example_defs)
  have d: "ListTicketsService_part000 exampleEnv
        ((exampleRequest ''7'')\<lparr>showAll := Some ''true''\<rparr>)
       = Inr \<lparr>tickets = [ticket4, ticket2, ticket1], count = 3, hasMore = False\<rparr>"
    by (simp add: service_defs store_defs example_defs)
  have f: "\<not> isAdmin agent7 \<and> \<not> isAdmin_part000 agent7
      \<and> Some (- 1) \<notin> set (map t_queueId exampleTickets) \<and> userQueueIds agent7 = [1]"
    by (simp add: service_defs example_defs)
  from ordinary_user_queue_scope [OF a b,
      of "\<lparr>tickets = [ticket2, ticket1], count = 2, hasMore = False\<rparr>"
         "\<lparr>tickets = [ticket4, ticket2, ticket1], count = 3, hasMore = False\<rparr>"] a b c d f
  show ?thesis by (simp add: exampleRequest_def example_defs)
qed

section \<open>Ownership, search and the shared key\<close>

text \<open>
  C2 (the code at a failing input). The request of agent 7 carries a search text
  and no \<open>showAll\<close>. The search group is stored under the key of the
  "mine or pending" group and takes its place: ticket 2, owned by agent 8 and
  open, is returned.
\<close>

theorem search_replaces_ownership:
  "ShowUserService exampleEnv (userId (exampleRequest ''7'')) = Inr agent7
   \<and> showAll ((exampleRequest ''7'')\<lparr>searchParam := Some ''a''\<rparr>) = None
   \<and> whereCondition exampleEnv agent7 ((exampleRequest ''7'')\<lparr>searchParam := Some ''a''\<rparr>) Op_or
       = Some (Or_group [ContactNameLike ''%a%'', ContactNumberLike ''%a%'',
                         MessageBodyLike ''%a%''])
   \<and> ListTicketsService exampleEnv ((exampleRequest ''7'')\<lparr>searchParam := Some ''a''\<rparr>)
       = Inr \<lparr>tickets = [ticket2, ticket1], count = 2, hasMore = False\<rparr>
   \<and> t_userId ticket2 = Some ''8'' \<and> t_status ticket2 = ''open''"
  by (simp add: service_defs store_defs example_defs)

section \<open>The queue filter of an elevated user\<close>

lemma eval_condition_queue_free:
  "eval_condition c (t\<lparr>t_queueId := x\<rparr>, m) = eval_condition c (t, m)"
  by (cases c) simp_all

lemma eval_clause_queue_free:
  "k \<noteq> queueId_key \<Longrightarrow> eval_clause k v (t\<lparr>t_queueId := x\<rparr>, m) = eval_clause k v (t, m)"
  by (cases k; cases v) (simp_all add: eval_condition_queue_free split: option.splits)

lemma eval_where_no_queue_entry:
  "w queueId_key = None \<Longrightarrow> eval_where w (t\<lparr>t_queueId := x\<rparr>, m) = eval_where w (t, m)"
  by (simp add: eval_where_def eval_clause_queue_free split: option.splits)

lemma effectiveQueueIds_supplied:
  "isAdmin u \<Longrightarrow> queueIds req = Some qs \<Longrightarrow> qs \<noteq> [] \<Longrightarrow> effectiveQueueIds u req = qs"
  by (simp add: effectiveQueueIds_def orDefault_def)

lemma elevated_supplied_queues:
  assumes "findAndCountAll e = ticketStore db"
    and "ShowUserService e (userId req) = Inr u"
    and "isAdmin u" and "queueIds req = Some qs" and "qs \<noteq> []"
    and "ListTicketsService e req = Inr r"
    and "t \<in> set (tickets r)"
  shows "\<exists>x. t_queueId t = Some x \<and> x \<in> set qs"
proof -
  from service_result [OF assms(2,6)] assms(1)
  have store: "ticketStore db (findOptions e u req) = Inr (count r, tickets r)"
    by simp
  from assms(3-5) have entry: "where_opt (findOptions e u req) queueId_key = Some (Op_in qs)"
    by (simp add: whereCondition_queueId effectiveQueueIds_supplied)
  from returned_ticket_in_queues [OF store assms(7) entry] show ?thesis by blast
qed

text \<open>
  C3 (as amended). In the service of backend/src an elevated user who sends a
  non-empty list of queue ids gets only tickets of those queues, and an elevated
  user who sends none and has no queue of their own gets no queue clause at all.
  In the variant part_000 an admin never gets a queue clause, whatever queue ids
  the request carries. Without a queue clause the query does not look at the
  queue of a ticket.
\<close>

theorem elevated_queue_filter:
  assumes "findAndCountAll e = ticketStore db"
    and "ShowUserService e (userId req) = Inr u"
  shows "(isAdmin u \<and> queueIds req = Some qs \<and> qs \<noteq> [] \<longrightarrow>
            whereCondition e u req queueId_key = Some (Op_in qs)
            \<and> (ListTicketsService e req = Inr r \<longrightarrow>
                 (\<forall>t\<in>set (tickets r). \<exists>x. t_queueId t = Some x \<and> x \<in> set qs)))
     \<and> (isAdmin u \<and> orDefault [] (queueIds req) = [] \<and> userQueueIds u = [] \<longrightarrow>
            whereCondition e u req queueId_key = None
            \<and> eval_where (whereCondition e u req) (t\<lparr>t_queueId := x\<rparr>, m)
                = eval_where (whereCondition e u req) (t, m))
     \<and> (isAdmin_part000 u \<longrightarrow>
            whereCondition_part000 e u req queueId_key = None
            \<and> eval_where (whereCondition_part000 e u req) (t\<lparr>t_queueId := x\<rparr>, m)
                = eval_where (whereCondition_part000 e u req) (t, m))"
proof -
  have supplied: "whereCondition e u req queueId_key = Some (Op_in qs)"
    if "isAdmin u" "queueIds req = Some qs" "qs \<noteq> []"
    using that by (simp add: whereCondition_queueId effectiveQueueIds_supplied)
  have page: "\<forall>t\<in>set (tickets r). \<exists>x. t_queueId t = Some x \<and> x \<in> set qs"
    if "isAdmin u" "queueIds req = Some qs" "qs \<noteq> []" "ListTicketsService e req = Inr r"
    using elevated_supplied_queues [OF assms that] by blast
  have unrestricted: "whereCondition e u req queueId_key = None"
    if "isAdmin u" "orDefault [] (queueIds req) = []" "userQueueIds u = []"
    using that by (simp add: whereCondition_queueId effectiveQueueIds_def)
  have part000: "whereCondition_part000 e u req queueId_key = None" if "isAdmin_part000 u"
    using that by (simp add: whereCondition_part000_queueId)
  from supplied page unrestricted part000 show ?thesis
    by (simp add: eval_where_no_queue_entry)
qed

text \<open>
  In the variant part_000 an admin who asks for the queues 3 and 4 is shown
  ticket 3 of queue 2 and ticket 4 of no queue.
\<close>

theorem part000_admin_queueIds_unused:
  "ShowUserService exampleEnv (userId (exampleRequest ''9'')) = Inr admin9
   \<and> isAdmin admin9 \<and> isAdmin_part000 admin9
   \<and> ListTicketsService_part000 exampleEnv ((exampleRequest ''9'')\<lparr>queueIds := Some [3, 4]\<rparr>)
       = Inr \<lparr>tickets = [ticket4, ticket3], count = 2, hasMore = False\<rparr>
   \<and> t_queueId ticket4 = None \<and> t_queueId ticket3 = Some 2"
  by (simp add: service_defs store_defs example_defs)

text \<open>
  In the service of backend/src an admin with a queue of their own who sends no
  queue ids is kept to that queue.
\<close>

lemma backend_admin_without_filter:
  "ShowUserService exampleEnv (userId (exampleRequest ''9'')) = Inr admin9
   \<and> isAdmin admin9 \<and> userQueueIds admin9 = [1]
   \<and> whereCondition exampleEnv admin9 ((exampleRequest ''9'')\<lparr>showAll := Some ''true''\<rparr>)
        queueId_key = Some (Op_in [1])
   \<and> ListTicketsService exampleEnv ((exampleRequest ''9'')\<lparr>showAll := Some ''true''\<rparr>)
       = Inr \<lparr>tickets = [ticket2, ticket1], count = 2, hasMore = False\<rparr>"
  by (simp add: service_defs store_defs example_defs)

theorem elevated_queue_filter_witness:
  "findAndCountAll exampleEnv = ticketStore exampleTickets
   \<and> ShowUserService exampleEnv (userId (exampleRequest ''9'')) = Inr admin9
   \<and> isAdmin admin9 \<and> isAdmin_part000 admin9
   \<and> whereCondition exampleEnv admin9
        ((exampleRequest ''9'')\<lparr>queueIds := Some [2, 3], showAll := Some ''true''\<rparr>) queueId_key
       = Some (Op_in [2, 3])
   \<and> ListTicketsService exampleEnv
        ((exampleRequest ''9'')\<lparr>queueIds := Some [2, 3], showAll := Some ''true''\<rparr>)
       = Inr \<lparr>tickets = [ticket3], count = 1, hasMore = False\<rparr>
   \<and> t_queueId ticket3 = Some 2
   \<and> whereCondition_part000 exampleEnv admin9
        ((exampleRequest ''9'')\<lparr>queueIds := Some [2, 3], showAll := Some ''true''\<rparr>) queueId_key
       = None"
proof -
  let ?req = "(exampleRequest ''9'')\<lparr>queueIds := Some [2, 3], showAll := Some ''true''\<rparr>"
  have a: "findAndCountAll exampleEnv = ticketStore exampleTickets"
    by (simp add: exampleEnv_def)
  have b: "ShowUserService exampleEnv (userId ?req) = Inr admin9"
    by (simp add: exampleEnv_def exampleRequest_def exampleUsers_def)
  have c: "ListTicketsService exampleEnv ?req
       = Inr \<lparr>tickets = [ticket3], count = 1, hasMore = False\<rparr>"
    by (simp add: service_defs store_defs example_defs)
  have d: "isAdmin admin9 \<and> isAdmin_part000 admin9 \<and> queueIds ?req = Some [2, 3]"
    by (simp add: service_defs example_defs)
  from elevated_queue_filter [OF a b,
      of "[2, 3]" "\<lparr>tickets = [ticket3], count = 1, hasMore = False\<rparr>"] a b c d
  show ?thesis by (simp add: exampleRequest_def ticket3_def exampleTicket_def)
qed

section \<open>Errors\<close>

lemma whereCondition_createdAt:
  "whereCondition e u req createdAt_key =
     ifTruthy (date req) (\<lambda>d. Some (createdAtBetween e d)) None"
  by (simp add: whereCondition_def Let_def ifTruthy_def split: option.splits)

lemma whereCondition_part000_createdAt:
  "whereCondition_part000 e u req createdAt_key =
     ifTruthy (date req) (\<lambda>d. Some (createdAtBetween e d)) None"
  by (simp add: whereCondition_part000_def queueOrNull_def Let_def ifTruthy_def
      split: option.splits)

text \<open>
  C7 (as amended). The service fails exactly when one of its two collaborator
  calls fails, and with that call's error unchanged: the error of the user lookup
  when the acting user does not resolve, and otherwise the error of the ticket
  query. A date is never validated: whatever the date library makes of the text,
  the Invalid Date included, becomes the two bounds of \<open>createdAt\<close> in the query.
\<close>

theorem service_fails_with_collaborator:
  "(ListTicketsService e req = Inl err \<longleftrightarrow>
      ShowUserService e (userId req) = Inl err
      \<or> (\<exists>u. ShowUserService e (userId req) = Inr u
              \<and> findAndCountAll e (findOptions e u req) = Inl err))
   \<and> (ListTicketsService_part000 e req = Inl err \<longleftrightarrow>
      ShowUserService e (userId req) = Inl err
      \<or> (\<exists>u. ShowUserService e (userId req) = Inr u
              \<and> findAndCountAll e (findOptions_part000 e u req) = Inl err))
   \<and> (date req = Some d \<and> d \<noteq> [] \<longrightarrow>
        where_opt (findOptions e u req) createdAt_key
          = Some (Op_between (startOfDay e (parseISO e d)) (endOfDay e (parseISO e d)))
        \<and> where_opt (findOptions_part000 e u req) createdAt_key
          = Some (Op_between (startOfDay e (parseISO e d)) (endOfDay e (parseISO e d))))"
proof -
  have errors: "ListTicketsService e req = Inl err \<longleftrightarrow>
      ShowUserService e (userId req) = Inl err
      \<or> (\<exists>u. ShowUserService e (userId req) = Inr u
              \<and> findAndCountAll e (findOptions e u req) = Inl err)"
    by (auto simp: ListTicketsService_def split: sum.splits)
  have errors_part000: "ListTicketsService_part000 e req = Inl err \<longleftrightarrow>
      ShowUserService e (userId req) = Inl err
      \<or> (\<exists>u. ShowUserService e (userId req) = Inr u
              \<and> findAndCountAll e (findOptions_part000 e u req) = Inl err)"
    by (auto simp: ListTicketsService_part000_def split: sum.splits)
  have bounds: "where_opt (findOptions e u req) createdAt_key
          = Some (Op_between (startOfDay e (parseISO e d)) (endOfDay e (parseISO e d)))
        \<and> where_opt (findOptions_part000 e u req) createdAt_key
          = Some (Op_between (startOfDay e (parseISO e d)) (endOfDay e (parseISO e d)))"
    if "date req = Some d" "d \<noteq> []"
    using that
    by (simp add: whereCondition_createdAt whereCondition_part000_createdAt ifTruthy_def
        createdAtBetween_def)
  from errors errors_part000 bounds show ?thesis by blast
qed

text \<open>
  A date that the date library does not parse raises nothing: the query is built
  with two \<open>NaN\<close> bounds and answered.
\<close>

theorem unparseable_date_is_queried:
  "ShowUserService exampleEnv (userId (exampleRequest ''7'')) = Inr agent7
   \<and> parseISO exampleEnv ''2024-13-45'' = None
   \<and> where_opt (findOptions exampleEnv agent7 ((exampleRequest ''7'')\<lparr>date := Some ''2024-13-45''\<rparr>))
        createdAt_key = Some (Op_between None None)
   \<and> ListTicketsService exampleEnv ((exampleRequest ''7'')\<lparr>date := Some ''2024-13-45''\<rparr>)
       = Inr \<lparr>tickets = [], count = 0, hasMore = False\<rparr>
   \<and> ListTicketsService_part000 exampleEnv ((exampleRequest ''7'')\<lparr>date := Some ''2024-13-45''\<rparr>)
       = Inr \<lparr>tickets = [], count = 0, hasMore = False\<rparr>"
  by (simp add: service_defs store_defs example_defs)

theorem service_fails_with_collaborator_witness:
  "ShowUserService exampleEnv (userId (exampleRequest ''77'')) = Inl NotFound
   \<and> ListTicketsService exampleEnv ((exampleRequest ''77'')\<lparr>date := Some ''2024-05-01''\<rparr>)
       = Inl NotFound
   \<and> ListTicketsService_part000 exampleEnv ((exampleRequest ''77'')\<lparr>date := Some ''2024-05-01''\<rparr>)
       = Inl NotFound
   \<and> where_opt (findOptions exampleEnv agent7
          ((exampleRequest ''77'')\<lparr>date := Some ''2024-05-01''\<rparr>)) createdAt_key
       = Some (Op_between (Some 1714521600000) (Some 1714607999999))"
proof -
  let ?req = "(exampleRequest ''77'')\<lparr>date := Some ''2024-05-01''\<rparr>"
  have a: "ShowUserService exampleEnv (userId ?req) = Inl NotFound"
    by (simp add: exampleEnv_def exampleRequest_def exampleUsers_def)
  have b: "date ?req = Some ''2024-05-01''"
    by (simp add: exampleRequest_def)
  from service_fails_with_collaborator
    [of exampleEnv ?req NotFound "''2024-05-01''" agent7] a b
  show ?thesis by (simp add: exampleEnv_def exampleRequest_def)
qed

section \<open>Pagination\<close>

lemma sorted_orderTickets:
  "sorted_wrt (\<lambda>a b. t_updatedAt b \<le> t_updatedAt a) (orderTickets [(''updatedAt'', ''DESC'')] ts)"
proof -
  have "sorted (map (\<lambda>t. - t_updatedAt t) (sort_key (\<lambda>t. - t_updatedAt t) ts))"
    by (rule sorted_sort_key)
  then show ?thesis
    by (simp add: orderTickets_def sorted_map)
qed

lemma matched_ids_bounded:
  "card ((\<lambda>r. t_id (fst r)) ` set (matchingRows db q)) \<le> length db"
proof -
  have "(\<lambda>r. t_id (fst r)) ` set (matchingRows db q) \<subseteq> t_id ` set db"
    by (auto dest: matchingRows_sound)
  then have "card ((\<lambda>r. t_id (fst r)) ` set (matchingRows db q)) \<le> card (t_id ` set db)"
    by (simp add: card_mono)
  also have "\<dots> \<le> card (set db)" by (simp add: card_image_le)
  also have "\<dots> \<le> length db" by (rule card_length)
  finally show ?thesis .
qed

lemma page_of_store:
  assumes "ticketStore db q = Inr (c, ts)"
    and "limit_opt q = 40" and "order_opt q = [(''updatedAt'', ''DESC'')]" and "distinct_opt q"
  shows "length ts \<le> 40
     \<and> sorted_wrt (\<lambda>a b. t_updatedAt b \<le> t_updatedAt a) ts
     \<and> c = card ((\<lambda>r. t_id (fst r)) ` set (matchingRows db q))
     \<and> c \<le> length db"
proof -
  from assms obtain off where ts: "ts = take 40 (drop (nat off)
      (orderTickets [(''updatedAt'', ''DESC'')] (remdups (map fst (matchingRows db q)))))"
    and c: "c = length (remdups (map (\<lambda>r. t_id (fst r)) (matchingRows db q)))"
    by (auto simp: ticketStore_def Let_def split: page_offset.splits if_splits)
  from ts have "length ts \<le> 40" by simp
  moreover from ts have "sorted_wrt (\<lambda>a b. t_updatedAt b \<le> t_updatedAt a) ts"
    using sorted_orderTickets sorted_wrt_take sorted_wrt_drop by metis
  moreover from c have "c = card ((\<lambda>r. t_id (fst r)) ` set (matchingRows db q))"
    by (simp add: length_remdups_card_conv)
  ultimately show ?thesis
    using matched_ids_bounded [of db q] by simp
qed

lemma rows_of_store:
  assumes "ticketStore db q = Inr (c, ts)" and "limit_opt q = 40" and "offset_opt q = Exactly k"
  shows "0 \<le> k \<and> ts = take 40 (drop (nat k) (matchingTickets db q))"
  using assms
  by (auto simp: ticketStore_def matchingTickets_def Let_def split: if_splits)

lemma store_answers:
  "offset_opt q = Exactly off \<Longrightarrow> 0 \<le> off \<Longrightarrow> 0 \<le> limit_opt q \<Longrightarrow>
   \<exists>c ts. ticketStore db q = Inr (c, ts)"
  by (simp add: ticketStore_def Let_def)

lemma hasMore_of_service:
  "ListTicketsService e req = Inr r \<Longrightarrow> offset req = Exactly k \<Longrightarrow>
   hasMore r \<longleftrightarrow> k + int (length (tickets r)) < int (count r)"
  by (auto simp: ListTicketsService_def computeHasMore_def split: sum.splits)

lemma hasMore_of_service_part000:
  "ListTicketsService_part000 e req = Inr r \<Longrightarrow> offset req = Exactly k \<Longrightarrow>
   hasMore r \<longleftrightarrow> k + int (length (tickets r)) < int (count r)"
  by (auto simp: ListTicketsService_part000_def computeHasMore_def split: sum.splits)

lemma offset_of_literal:
  "decimalInteger (orDefault ''1'' (pageNumber req)) = Some n \<Longrightarrow> exactOffset n \<Longrightarrow>
   offset req = Exactly (40 * (n - 1))"
  by (simp add: offset_def limit_def)

lemma paging_options:
  "limit_opt (findOptions e u req) = 40"
  "order_opt (findOptions e u req) = [(''updatedAt'', ''DESC'')]"
  "distinct_opt (findOptions e u req)"
  "offset_opt (findOptions e u req) = offset req"
  "limit_opt (findOptions_part000 e u req) = 40"
  "order_opt (findOptions_part000 e u req) = [(''updatedAt'', ''DESC'')]"
  "distinct_opt (findOptions_part000 e u req)"
  "offset_opt (findOptions_part000 e u req) = offset req"
  by (simp_all add: findOptions_def findOptions_part000_def limit_def)

lemma service_answers:
  assumes "findAndCountAll e = ticketStore db"
    and "ShowUserService e (userId req) = Inr u"
    and "offset req = Exactly k" and "0 \<le> k"
  shows "(\<exists>r. ListTicketsService e req = Inr r) \<and> (\<exists>r. ListTicketsService_part000 e req = Inr r)"
proof -
  from assms(3) have off: "offset_opt (findOptions e u req) = Exactly k"
    "offset_opt (findOptions_part000 e u req) = Exactly k"
    by (simp_all add: paging_options)
  from store_answers [OF off(1) assms(4), of db] obtain c ts
    where "ticketStore db (findOptions e u req) = Inr (c, ts)"
    by (auto simp: paging_options)
  moreover from store_answers [OF off(2) assms(4), of db] obtain c' ts'
    where "ticketStore db (findOptions_part000 e u req) = Inr (c', ts')"
    by (auto simp: paging_options)
  ultimately show ?thesis
    using assms(1,2) by (simp add: ListTicketsService_def ListTicketsService_part000_def)
qed

lemma page_of_service:
  assumes "ShowUserService e (userId req) = Inr u"
    and "findAndCountAll e = ticketStore db" and "ListTicketsService e req = Inr r"
  shows "length (tickets r) \<le> 40
      \<and> sorted_wrt (\<lambda>a b. t_updatedAt b \<le> t_updatedAt a) (tickets r)
      \<and> count r = card ((\<lambda>row. t_id (fst row)) ` set (matchingRows db (findOptions e u req)))
      \<and> count r \<le> length db"
proof -
  from service_result [OF assms(1,3)] assms(2)
  have "ticketStore db (findOptions e u req) = Inr (count r, tickets r)" by simp
  from page_of_store [OF this paging_options(1,2,3)] show ?thesis .
qed

lemma page_of_service_part000:
  assumes "ShowUserService e (userId req) = Inr u"
    and "findAndCountAll e = ticketStore db" and "ListTicketsService_part000 e req = Inr r"
  shows "length (tickets r) \<le> 40
      \<and> sorted_wrt (\<lambda>a b. t_updatedAt b \<le> t_updatedAt a) (tickets r)
      \<and> count r
          = card ((\<lambda>row. t_id (fst row)) ` set (matchingRows db (findOptions_part000 e u req)))
      \<and> count r \<le> length db"
proof -
  from service_part000_result [OF assms(1,3)] assms(2)
  have "ticketStore db (findOptions_part000 e u req) = Inr (count r, tickets r)" by simp
  from page_of_store [OF this paging_options(5,6,7)] show ?thesis .
qed

lemma rows_of_service:
  assumes "ShowUserService e (userId req) = Inr u"
    and "findAndCountAll e = ticketStore db" and "offset req = Exactly k"
  shows "(ListTicketsService e req = Inr r \<longrightarrow>
            tickets r = take 40 (drop (nat k) (matchingTickets db (findOptions e u req))))
     \<and> (ListTicketsService_part000 e req = Inr r \<longrightarrow>
            tickets r = take 40 (drop (nat k) (matchingTickets db (findOptions_part000 e u req))))"
proof (intro conjI impI)
  assume "ListTicketsService e req = Inr r"
  from service_result [OF assms(1) this] assms(2)
  have "ticketStore db (findOptions e u req) = Inr (count r, tickets r)" by simp
  from rows_of_store [OF this paging_options(1)] assms(3)
  show "tickets r = take 40 (drop (nat k) (matchingTickets db (findOptions e u req)))"
    by (simp add: paging_options)
next
  assume "ListTicketsService_part000 e req = Inr r"
  from service_part000_result [OF assms(1) this] assms(2)
  have "ticketStore db (findOptions_part000 e u req) = Inr (count r, tickets r)" by simp
  from rows_of_store [OF this paging_options(5)] assms(3)
  show "tickets r = take 40 (drop (nat k) (matchingTickets db (findOptions_part000 e u req)))"
    by (simp add: paging_options)
qed

text \<open>
  C8. For every request, in both variants, the query asks for a page of exactly 40
  rows, ordered by \<open>updatedAt\<close> descending, with a distinct count. For a page
  number that is a decimal integer \<open>n\<close> (the default 1 included) within the range
  where the arithmetic of the language is exact, the offset is 40 * (n - 1), and
  \<open>hasMore\<close> holds exactly when the count exceeds the offset plus the number of
  tickets returned. On the ticket store the page has at most 40 tickets, newest
  first; the count is the number of matching tickets, however many of their
  messages match; page \<open>n\<close> holds the 40 matching tickets after the first
  40 * (n - 1); and a page number from 1 on is always answered.
\<close>

theorem page_of_forty_newest_first:
  assumes "ShowUserService e (userId req) = Inr u"
  shows "limit_opt (findOptions e u req) = 40
     \<and> order_opt (findOptions e u req) = [(''updatedAt'', ''DESC'')]
     \<and> distinct_opt (findOptions e u req)
     \<and> limit_opt (findOptions_part000 e u req) = 40
     \<and> order_opt (findOptions_part000 e u req) = [(''updatedAt'', ''DESC'')]
     \<and> distinct_opt (findOptions_part000 e u req)
     \<and> (decimalInteger (orDefault ''1'' (pageNumber req)) = Some n \<and> exactOffset n \<longrightarrow>
          offset_opt (findOptions e u req) = Exactly (40 * (n - 1))
          \<and> offset_opt (findOptions_part000 e u req) = Exactly (40 * (n - 1))
          \<and> (ListTicketsService e req = Inr r \<or> ListTicketsService_part000 e req = Inr r \<longrightarrow>
               (hasMore r \<longleftrightarrow> 40 * (n - 1) + int (length (tickets r)) < int (count r)))
          \<and> (findAndCountAll e = ticketStore db \<and> ListTicketsService e req = Inr r \<longrightarrow>
               tickets r
                 = take 40 (drop (nat (40 * (n - 1))) (matchingTickets db (findOptions e u req))))
          \<and> (findAndCountAll e = ticketStore db \<and> ListTicketsService_part000 e req = Inr r \<longrightarrow>
               tickets r
                 = take 40 (drop (nat (40 * (n - 1)))
                     (matchingTickets db (findOptions_part000 e u req))))
          \<and> (findAndCountAll e = ticketStore db \<and> 1 \<le> n \<longrightarrow>
               (\<exists>r. ListTicketsService e req = Inr r)
               \<and> (\<exists>r. ListTicketsService_part000 e req = Inr r)))
     \<and> (findAndCountAll e = ticketStore db \<and> ListTicketsService e req = Inr r \<longrightarrow>
          length (tickets r) \<le> 40
          \<and> sorted_wrt (\<lambda>a b. t_updatedAt b \<le> t_updatedAt a) (tickets r)
          \<and> count r = card ((\<lambda>row. t_id (fst row)) ` set (matchingRows db (findOptions e u req)))
          \<and> count r \<le> length db)
     \<and> (findAndCountAll e = ticketStore db \<and> ListTicketsService_part000 e req = Inr r \<longrightarrow>
          length (tickets r) \<le> 40
          \<and> sorted_wrt (\<lambda>a b. t_updatedAt b \<le> t_updatedAt a) (tickets r)
          \<and> count r
              = card ((\<lambda>row. t_id (fst row)) ` set (matchingRows db (findOptions_part000 e u req)))
          \<and> count r \<le> length db)"
proof -
  have off: "offset req = Exactly (40 * (n - 1))"
    if "decimalInteger (orDefault ''1'' (pageNumber req)) = Some n" "exactOffset n"
    using that by (rule offset_of_literal)
  have offs: "offset_opt (findOptions e u req) = Exactly (40 * (n - 1))"
    "offset_opt (findOptions_part000 e u req) = Exactly (40 * (n - 1))"
    if "decimalInteger (orDefault ''1'' (pageNumber req)) = Some n" "exactOffset n"
    using off [OF that] by (simp_all add: paging_options)
  have more: "hasMore r \<longleftrightarrow> 40 * (n - 1) + int (length (tickets r)) < int (count r)"
    if "decimalInteger (orDefault ''1'' (pageNumber req)) = Some n" "exactOffset n"
      "ListTicketsService e req = Inr r \<or> ListTicketsService_part000 e req = Inr r"
    using that(3) hasMore_of_service [OF _ off [OF that(1,2)]]
      hasMore_of_service_part000 [OF _ off [OF that(1,2)]] by blast
  have rows: "tickets r
      = take 40 (drop (nat (40 * (n - 1))) (matchingTickets db (findOptions e u req)))"
    if "decimalInteger (orDefault ''1'' (pageNumber req)) = Some n" "exactOffset n"
      "findAndCountAll e = ticketStore db" "ListTicketsService e req = Inr r"
    using rows_of_service [OF assms that(3) off [OF that(1,2)]] that(4) by blast
  have rows_part000: "tickets r
      = take 40 (drop (nat (40 * (n - 1))) (matchingTickets db (findOptions_part000 e u req)))"
    if "decimalInteger (orDefault ''1'' (pageNumber req)) = Some n" "exactOffset n"
      "findAndCountAll e = ticketStore db" "ListTicketsService_part000 e req = Inr r"
    using rows_of_service [OF assms that(3) off [OF that(1,2)]] that(4) by blast
  have answers: "(\<exists>r. ListTicketsService e req = Inr r)
      \<and> (\<exists>r. ListTicketsService_part000 e req = Inr r)"
    if "decimalInteger (orDefault ''1'' (pageNumber req)) = Some n" "exactOffset n"
      "findAndCountAll e = ticketStore db" "1 \<le> n"
  proof -
    from that(4) have "0 \<le> 40 * (n - 1)" by simp
    from service_answers [OF that(3) assms off [OF that(1,2)] this] show ?thesis .
  qed
  have page: "length (tickets r) \<le> 40
      \<and> sorted_wrt (\<lambda>a b. t_updatedAt b \<le> t_updatedAt a) (tickets r)
      \<and> count r = card ((\<lambda>row. t_id (fst row)) ` set (matchingRows db (findOptions e u req)))
      \<and> count r \<le> length db"
    if "findAndCountAll e = ticketStore db" "ListTicketsService e req = Inr r"
    using page_of_service [OF assms that] .
  have page_part000: "length (tickets r) \<le> 40
      \<and> sorted_wrt (\<lambda>a b. t_updatedAt b \<le> t_updatedAt a) (tickets r)
      \<and> count r
          = card ((\<lambda>row. t_id (fst row)) ` set (matchingRows db (findOptions_part000 e u req)))
      \<and> count r \<le> length db"
    if "findAndCountAll e = ticketStore db" "ListTicketsService_part000 e req = Inr r"
    using page_of_service_part000 [OF assms that] .
  from offs more rows rows_part000 answers page page_part000
    paging_options(1,2,3,5,6,7) [of e u req]
  show ?thesis by blast
qed

text \<open>The page number texts: which ones the model reads, and as what.\<close>

lemma decimalInteger_examples:
  "decimalInteger ''2'' = Some 2"
  "decimalInteger '' 12 '' = Some 12"
  "decimalInteger ''-3'' = Some (- 3)"
  "decimalInteger '''' = Some 0"
  "decimalInteger ''1.5'' = None"
  "decimalInteger ''2.0'' = None"
  "decimalInteger ''1e1'' = None"
  "decimalInteger ''0x2'' = None"
  "decimalInteger ''abc'' = None"
  by (simp_all add: decimalInteger_def trim_def isSpace_def digitValue_def)

lemma offset_examples:
  "offset ((exampleRequest ''7'')\<lparr>pageNumber := Some ''2''\<rparr>) = Exactly 40"
  "offset ((exampleRequest ''7'')\<lparr>pageNumber := Some ''0''\<rparr>) = Exactly (- 40)"
  "offset ((exampleRequest ''7'')\<lparr>pageNumber := Some ''2.0''\<rparr>) = Unfollowed ''2.0''"
  "offset ((exampleRequest ''7'')\<lparr>pageNumber := Some ''9007199254740993''\<rparr>)
     = Unfollowed ''9007199254740993''"
  by (simp_all add: offset_def exactOffset_def limit_def decimalInteger_def trim_def isSpace_def
      digitValue_def orDefault_def exampleRequest_def)

text \<open>The first page of the store of 41 tickets: the 40 newest, and more to come.\<close>

lemma bulk_first_page:
  "case ListTicketsService bulkEnv (exampleRequest ''7'') of
     Inl err \<Rightarrow> False
   | Inr r \<Rightarrow>
       map t_id (tickets r)
         = [41, 40, 39, 38, 37, 36, 35, 34, 33, 32, 31, 30, 29, 28, 27, 26, 25, 24, 23,
            22, 21, 20, 19, 18, 17, 16, 15, 14, 13, 12, 11, 10, 9, 8, 7, 6, 5, 4, 3, 2]
       \<and> count r = 41 \<and> hasMore r"
  by (simp add: service_defs store_defs example_defs bulkEnv_def bulkTickets_def)

text \<open>The second page: the oldest ticket alone, and no more.\<close>

lemma bulk_second_page:
  "ListTicketsService bulkEnv ((exampleRequest ''7'')\<lparr>pageNumber := Some ''2''\<rparr>)
     = Inr \<lparr>tickets = [exampleTicket 1 (Some 1) (Some ''7'') ''open'' 1 ''Bulk'' []],
            count = 41, hasMore = False\<rparr>"
  by (simp add: service_defs store_defs example_defs bulkEnv_def bulkTickets_def)

lemma bulk_second_page_part000:
  "ListTicketsService_part000 bulkEnv ((exampleRequest ''7'')\<lparr>pageNumber := Some ''2''\<rparr>)
     = Inr \<lparr>tickets = [exampleTicket 1 (Some 1) (Some ''7'') ''open'' 1 ''Bulk'' []],
            count = 41, hasMore = False\<rparr>"
  by (simp add: service_defs store_defs example_defs bulkEnv_def bulkTickets_def)

theorem page_of_forty_newest_first_witness:
  "ShowUserService bulkEnv (userId ((exampleRequest ''7'')\<lparr>pageNumber := Some ''2''\<rparr>)) = Inr agent7
   \<and> findAndCountAll bulkEnv = ticketStore bulkTickets
   \<and> length bulkTickets = 41
   \<and> decimalInteger (orDefault ''1'' (pageNumber ((exampleRequest ''7'')\<lparr>pageNumber := Some ''2''\<rparr>)))
       = Some 2
   \<and> exactOffset 2
   \<and> offset_opt (findOptions bulkEnv agent7 ((exampleRequest ''7'')\<lparr>pageNumber := Some ''2''\<rparr>))
       = Exactly 40
   \<and> offset_opt (findOptions_part000 bulkEnv agent7
         ((exampleRequest ''7'')\<lparr>pageNumber := Some ''2''\<rparr>)) = Exactly 40
   \<and> ListTicketsService bulkEnv ((exampleRequest ''7'')\<lparr>pageNumber := Some ''2''\<rparr>)
       = Inr \<lparr>tickets = [exampleTicket 1 (Some 1) (Some ''7'') ''open'' 1 ''Bulk'' []],
              count = 41, hasMore = False\<rparr>
   \<and> ListTicketsService_part000 bulkEnv ((exampleRequest ''7'')\<lparr>pageNumber := Some ''2''\<rparr>)
       = Inr \<lparr>tickets = [exampleTicket 1 (Some 1) (Some ''7'') ''open'' 1 ''Bulk'' []],
              count = 41, hasMore = False\<rparr>
   \<and> take 40 (drop 40 (matchingTickets bulkTickets
         (findOptions bulkEnv agent7 ((exampleRequest ''7'')\<lparr>pageNumber := Some ''2''\<rparr>))))
       = [exampleTicket 1 (Some 1) (Some ''7'') ''open'' 1 ''Bulk'' []]
   \<and> (\<exists>r. ListTicketsService bulkEnv (exampleRequest ''7'') = Inr r
          \<and> map t_id (tickets r)
              = [41, 40, 39, 38, 37, 36, 35, 34, 33, 32, 31, 30, 29, 28, 27, 26, 25, 24, 23,
                 22, 21, 20, 19, 18, 17, 16, 15, 14, 13, 12, 11, 10, 9, 8, 7, 6, 5, 4, 3, 2]
          \<and> count r = 41 \<and> hasMore r
          \<and> (hasMore r \<longleftrightarrow> 40 * (1 - 1) + int (length (tickets r)) < int (count r))
          \<and> length (tickets r) \<le> 40
          \<and> sorted_wrt (\<lambda>a b. t_updatedAt b \<le> t_updatedAt a) (tickets r))"
proof -
  let ?req = "(exampleRequest ''7'')\<lparr>pageNumber := Some ''2''\<rparr>"
  let ?page2 = "\<lparr>tickets = [exampleTicket 1 (Some 1) (Some ''7'') ''open'' 1 ''Bulk'' []],
      count = 41, hasMore = False\<rparr>"
  have a: "ShowUserService bulkEnv (userId ?req) = Inr agent7"
    "ShowUserService bulkEnv (userId (exampleRequest ''7'')) = Inr agent7"
    by (simp_all add: bulkEnv_def exampleEnv_def exampleRequest_def exampleUsers_def)
  have b: "findAndCountAll bulkEnv = ticketStore bulkTickets"
    by (simp add: bulkEnv_def)
  have c: "length bulkTickets = 41"
    by (simp add: bulkTickets_def)
  have d: "decimalInteger (orDefault ''1'' (pageNumber ?req)) = Some 2" "exactOffset 2"
    "decimalInteger (orDefault ''1'' (pageNumber (exampleRequest ''7''))) = Some 1" "exactOffset 1"
    by (simp_all add: decimalInteger_def exactOffset_def limit_def trim_def isSpace_def
        digitValue_def orDefault_def exampleRequest_def)
  note second = page_of_forty_newest_first [OF a(1), of 2 ?page2 bulkTickets]
  from second d(1,2) have f: "offset_opt (findOptions bulkEnv agent7 ?req) = Exactly 40"
    "offset_opt (findOptions_part000 bulkEnv agent7 ?req) = Exactly 40"
    by simp_all
  from second d(1,2) b bulk_second_page
  have g: "take 40 (drop 40 (matchingTickets bulkTickets (findOptions bulkEnv agent7 ?req)))
      = [exampleTicket 1 (Some 1) (Some ''7'') ''open'' 1 ''Bulk'' []]"
    by simp
  from bulk_first_page obtain r where r: "ListTicketsService bulkEnv (exampleRequest ''7'') = Inr r"
    "map t_id (tickets r)
       = [41, 40, 39, 38, 37, 36, 35, 34, 33, 32, 31, 30, 29, 28, 27, 26, 25, 24, 23,
          22, 21, 20, 19, 18, 17, 16, 15, 14, 13, 12, 11, 10, 9, 8, 7, 6, 5, 4, 3, 2]"
    "count r = 41" "hasMore r"
    by (auto split: sum.splits)
  note first = page_of_forty_newest_first [OF a(2), of 1 r bulkTickets]
  from first d(3,4) r(1)
  have h: "hasMore r \<longleftrightarrow> 40 * (1 - 1) + int (length (tickets r)) < int (count r)"
    by blast
  from first b r(1)
  have i: "length (tickets r) \<le> 40"
    "sorted_wrt (\<lambda>a b. t_updatedAt b \<le> t_updatedAt a) (tickets r)"
    by blast+
  show ?thesis
    by (intro conjI exI [of _ r])
      (fact a b c d f g h i r bulk_second_page bulk_second_page_part000)+
qed

section \<open>Search and the unread filter\<close>

lemma whereCondition_part000_without_search:
  assumes "\<not> isAdmin_part000 u" and "withUnreadMessages req = Some ''true''"
    and "showAll req \<noteq> Some ''true''"
  shows "whereCondition_part000 e u req = whereCondition_part000 e u (req\<lparr>searchParam := None\<rparr>)"
proof
  fix k
  show "whereCondition_part000 e u req k = whereCondition_part000 e u (req\<lparr>searchParam := None\<rparr>) k"
    using assms
    by (cases k)
      (simp_all add: whereCondition_part000_def queueOrNull_def Let_def ifTruthy_def
        ownedOrPending_def searchText_def orDefault_def split: option.splits)
qed

text \<open>
  C9. In the variant part_000, for a user who is not an admin, with the unread
  filter on, \<open>showAll\<close> not "true" and a search text, the "mine or pending" group
  written in the unread step takes the place of the search group under the same
  key: the where object is the one of the same request without search text, so
  the search no longer constrains the result.
\<close>

theorem part000_unread_overwrites_search:
  assumes "\<not> isAdmin_part000 u" and "withUnreadMessages req = Some ''true''"
    and "showAll req \<noteq> Some ''true''" and "searchText req \<noteq> []"
  shows "whereCondition_part000 e u req Op_or
       = Some (Or_group [UserIdIs (userId req), StatusIs ''pending''])
     \<and> whereCondition_part000 e u req = whereCondition_part000 e u (req\<lparr>searchParam := None\<rparr>)"
  using assms whereCondition_part000_without_search [OF assms(1-3)]
  by (simp add: whereCondition_part000_Op_or ownedOrPending_def)

theorem part000_unread_overwrites_search_witness:
  "\<not> isAdmin_part000 agent7
   \<and> searchText ((exampleRequest ''7'')\<lparr>searchParam := Some ''zzz'',
         withUnreadMessages := Some ''true''\<rparr>) = ''zzz''
   \<and> whereCondition_part000 exampleEnv agent7
        ((exampleRequest ''7'')\<lparr>searchParam := Some ''zzz'', withUnreadMessages := Some ''true''\<rparr>)
        Op_or = Some (Or_group [UserIdIs ''7'', StatusIs ''pending''])
   \<and> ListTicketsService_part000 exampleEnv
        ((exampleRequest ''7'')\<lparr>searchParam := Some ''zzz'', withUnreadMessages := Some ''true''\<rparr>)
       = Inr \<lparr>tickets = [ticket4, ticket1], count = 2, hasMore = False\<rparr>
   \<and> ListTicketsService_part000 exampleEnv
        ((exampleRequest ''7'')\<lparr>searchParam := Some ''zzz''\<rparr>)
       = Inr \<lparr>tickets = [], count = 0, hasMore = False\<rparr>"
proof -
  let ?req = "(exampleRequest ''7'')\<lparr>searchParam := Some ''zzz'',
      withUnreadMessages := Some ''true''\<rparr>"
  have a: "\<not> isAdmin_part000 agent7"
    by (simp add: isAdmin_part000_def agent7_def)
  have b: "withUnreadMessages ?req = Some ''true''" "showAll ?req \<noteq> Some ''true''"
    by (simp_all add: exampleRequest_def)
  have c: "searchText ?req \<noteq> []" "searchText ?req = ''zzz''"
    by (simp_all add: searchText_def orDefault_def)
  have d: "ListTicketsService_part000 exampleEnv ?req
       = Inr \<lparr>tickets = [ticket4, ticket1], count = 2, hasMore = False\<rparr>"
    by (simp add: service_defs store_defs example_defs)
  have f: "ListTicketsService_part000 exampleEnv ((exampleRequest ''7'')\<lparr>searchParam := Some ''zzz''\<rparr>)
       = Inr \<lparr>tickets = [], count = 0, hasMore = False\<rparr>"
    by (simp add: service_defs store_defs example_defs)
  from part000_unread_overwrites_search [OF a b c(1), of exampleEnv, THEN conjunct1] a c(2) d f
  show ?thesis by (simp add: exampleRequest_def)
qed

lemma lowerChar_space:
  assumes "isSpace c"
  shows "lowerChar c = c"
proof -
  from assms consider "c = CHR 0x09" | "c = CHR 0x0A" | "c = CHR 0x0B" | "c = CHR 0x0C"
    | "c = CHR 0x0D" | "c = CHR '' ''"
    by (auto simp: isSpace_def)
  then show ?thesis
    by cases (simp_all add: lowerChar_def)
qed

lemma trim_blank:
  assumes "list_all isSpace s"
  shows "trim (toLocaleLowerCase s) = []"
proof -
  from assms have "map lowerChar s = s"
    by (induction s) (simp_all add: lowerChar_space)
  moreover from assms have "dropWhile isSpace s = []"
    by (simp add: list_all_iff)
  ultimately show ?thesis
    by (auto simp: trim_def toLocaleLowerCase_def dest: set_dropWhileD)
qed

lemma like_any: "like ''%%'' x"
  by (induction x) simp_all

lemma blank_likePattern:
  "searchParam req = Some s \<Longrightarrow> list_all isSpace s \<Longrightarrow> likePattern req = ''%%''"
  by (simp add: likePattern_def sanitizedSearchParam_def searchText_def orDefault_def trim_blank)

lemma blank_search_differs:
  "ListTicketsService exampleEnv ((exampleRequest ''7'')\<lparr>searchParam := Some '' ''\<rparr>)
     = Inr \<lparr>tickets = [ticket2, ticket1], count = 2, hasMore = False\<rparr>
   \<and> ListTicketsService exampleEnv ((exampleRequest ''7'')\<lparr>searchParam := Some ''''\<rparr>)
     = Inr \<lparr>tickets = [ticket1], count = 1, hasMore = False\<rparr>
   \<and> ListTicketsService_part000 exampleEnv ((exampleRequest ''7'')\<lparr>searchParam := Some '' ''\<rparr>)
     = Inr \<lparr>tickets = [ticket4, ticket2, ticket1], count = 3, hasMore = False\<rparr>
   \<and> ListTicketsService_part000 exampleEnv ((exampleRequest ''7'')\<lparr>searchParam := Some ''''\<rparr>)
     = Inr \<lparr>tickets = [ticket4, ticket1], count = 2, hasMore = False\<rparr>"
  by (simp add: service_defs store_defs example_defs)

text \<open>
  C10. In both variants a search text of white space only is a search: the messages
  are joined, the pattern is "%%", which every row matches, and the search group is
  stored under the key of the "mine or pending" group (in the variant part_000
  unless the unread step writes that group again). On the example installation the
  answer differs from the one for the empty search text.
\<close>

theorem blank_search_is_a_search:
  assumes "searchParam req = Some s" and "s \<noteq> []" and "list_all isSpace s"
  shows "likePattern req = ''%%''
     \<and> include_opt (findOptions e u req) = baseInclude @ [messagesInclude req]
     \<and> include_opt (findOptions_part000 e u req) = baseInclude @ [messagesInclude req]
     \<and> whereCondition e u req Op_or
         = Some (Or_group [ContactNameLike ''%%'', ContactNumberLike ''%%'', MessageBodyLike ''%%''])
     \<and> (\<not> (withUnreadMessages req = Some ''true'' \<and> \<not> isAdmin_part000 u
              \<and> showAll req \<noteq> Some ''true'') \<longrightarrow>
          whereCondition_part000 e u req Op_or
            = Some (Or_group [ContactNameLike ''%%'', ContactNumberLike ''%%'',
                              MessageBodyLike ''%%'']))
     \<and> eval_clause Op_or
          (Or_group [ContactNameLike ''%%'', ContactNumberLike ''%%'', MessageBodyLike ''%%''])
          (t, m)
     \<and> ListTicketsService exampleEnv ((exampleRequest ''7'')\<lparr>searchParam := Some '' ''\<rparr>)
         \<noteq> ListTicketsService exampleEnv ((exampleRequest ''7'')\<lparr>searchParam := Some ''''\<rparr>)
     \<and> ListTicketsService_part000 exampleEnv ((exampleRequest ''7'')\<lparr>searchParam := Some '' ''\<rparr>)
         \<noteq> ListTicketsService_part000 exampleEnv
             ((exampleRequest ''7'')\<lparr>searchParam := Some ''''\<rparr>)"
proof -
  from assms have nonempty: "searchText req \<noteq> []"
    by (simp add: searchText_def orDefault_def)
  from assms have pattern: "likePattern req = ''%%''"
    by (simp add: blank_likePattern)
  from nonempty have inc: "include_opt (findOptions e u req) = baseInclude @ [messagesInclude req]"
    "include_opt (findOptions_part000 e u req) = baseInclude @ [messagesInclude req]"
    by (simp_all add: findOptions_def findOptions_part000_def includeCondition_def)
  from nonempty pattern have backend: "whereCondition e u req Op_or
      = Some (Or_group [ContactNameLike ''%%'', ContactNumberLike ''%%'', MessageBodyLike ''%%''])"
    by (simp add: whereCondition_Op_or searchGroup_def)
  from nonempty pattern have part000: "whereCondition_part000 e u req Op_or
      = Some (Or_group [ContactNameLike ''%%'', ContactNumberLike ''%%'', MessageBodyLike ''%%''])"
    if "\<not> (withUnreadMessages req = Some ''true'' \<and> \<not> isAdmin_part000 u
           \<and> showAll req \<noteq> Some ''true'')"
    using that by (auto simp: whereCondition_part000_Op_or searchGroup_def)
  have every: "eval_clause Op_or
      (Or_group [ContactNameLike ''%%'', ContactNumberLike ''%%'', MessageBodyLike ''%%''])
      (t, m)"
    using like_any [of "LOWER (contact_name (t_contact t))"] by simp
  have differ: "ListTicketsService exampleEnv ((exampleRequest ''7'')\<lparr>searchParam := Some '' ''\<rparr>)
         \<noteq> ListTicketsService exampleEnv ((exampleRequest ''7'')\<lparr>searchParam := Some ''''\<rparr>)"
    "ListTicketsService_part000 exampleEnv ((exampleRequest ''7'')\<lparr>searchParam := Some '' ''\<rparr>)
         \<noteq> ListTicketsService_part000 exampleEnv
             ((exampleRequest ''7'')\<lparr>searchParam := Some ''''\<rparr>)"
    using blank_search_differs by simp_all
  show ?thesis
    by (intro conjI impI) (fact | rule part000, assumption)+
qed

theorem blank_search_is_a_search_witness:
  "searchParam ((exampleRequest ''7'')\<lparr>searchParam := Some '' ''\<rparr>) = Some '' ''
   \<and> list_all isSpace '' ''
   \<and> likePattern ((exampleRequest ''7'')\<lparr>searchParam := Some '' ''\<rparr>) = ''%%''
   \<and> whereCondition exampleEnv agent7 ((exampleRequest ''7'')\<lparr>searchParam := Some '' ''\<rparr>) Op_or
       = Some (Or_group [ContactNameLike ''%%'', ContactNumberLike ''%%'', MessageBodyLike ''%%''])
   \<and> whereCondition_part000 exampleEnv agent7
        ((exampleRequest ''7'')\<lparr>searchParam := Some '' ''\<rparr>) Op_or
       = Some (Or_group [ContactNameLike ''%%'', ContactNumberLike ''%%'', MessageBodyLike ''%%''])
   \<and> ListTicketsService exampleEnv ((exampleRequest ''7'')\<lparr>searchParam := Some '' ''\<rparr>)
       = Inr \<lparr>tickets = [ticket2, ticket1], count = 2, hasMore = False\<rparr>
   \<and> ListTicketsService exampleEnv ((exampleRequest ''7'')\<lparr>searchParam := Some ''''\<rparr>)
       = Inr \<lparr>tickets = [ticket1], count = 1, hasMore = False\<rparr>"
proof -
  let ?req = "(exampleRequest ''7'')\<lparr>searchParam := Some '' ''\<rparr>"
  have a: "searchParam ?req = Some '' ''" "'' '' \<noteq> []" "list_all isSpace '' ''"
    by (simp_all add: isSpace_def)
  have b: "\<not> (withUnreadMessages ?req = Some ''true'' \<and> \<not> isAdmin_part000 agent7
           \<and> showAll ?req \<noteq> Some ''true'')"
    by (simp add: exampleRequest_def)
  note w = blank_search_is_a_search [OF a, of exampleEnv agent7 ticket1 None]
  from w have p: "likePattern ?req = ''%%''" by (rule conjunct1)
  from w have q: "whereCondition exampleEnv agent7 ?req Op_or
       = Some (Or_group [ContactNameLike ''%%'', ContactNumberLike ''%%'', MessageBodyLike ''%%''])"
    by blast
  from w b have r: "whereCondition_part000 exampleEnv agent7 ?req Op_or
       = Some (Or_group [ContactNameLike ''%%'', ContactNumberLike ''%%'', MessageBodyLike ''%%''])"
    by blast
  from a(1,3) p q r blank_search_differs show ?thesis
    by blast
qed

end
